theory Spec2Isabelle
  imports Main
begin

section \<open>Data model of getdemos.ts\<close>

text \<open>
  The envelope every response body is decoded into (interface \<open>ApiMessage<T>\<close>). The
  interceptor and \<open>doLogin\<close> only test \<open>ok\<close> for truthiness, and a decoded body may lack
  the field, so \<open>ok\<close> is optional here: \<open>None\<close> is the absent field (\<open>undefined\<close>).
\<close>

record 'd ApiMessage =
  ok :: "bool option"
  code :: int
  msg :: string
  data :: 'd

text \<open>The part of an axios response the client reads: the status and the decoded body.\<close>

record 'd AxiosResponse =
  status :: int
  body :: "'d ApiMessage"

text \<open>
  The part of an axios request configuration the client touches. The headers are a
  dictionary from header names to values.
\<close>

record 'p AxiosRequestConfig =
  http_method :: string
  url :: string
  headers :: "string \<rightharpoonup> string"
  payload :: "'p option"

text \<open>
  The values a promise of this client is rejected with. A collaborator (the token store,
  the transport, the version comparator) raises an error object \<open>Raised c r\<close>: \<open>c\<close> is
  the error itself and \<open>r\<close> its \<open>response\<close> property, which only errors of the transport
  that received a response have. The interceptors reject with the response object, with
  the object \<open>{ok: false, msg: m}\<close> (\<open>m\<close> a text or an error), or with \<open>undefined\<close>.
  Reading a property of \<open>undefined\<close> raises a \<open>TypeError\<close>.
\<close>

datatype ('c, 'd) reason =
    Undefined
  | TypeError
  | Raised 'c "'d AxiosResponse option"
  | RejectedResponse "'d AxiosResponse"
  | FailureText string
  | FailureOf "('c, 'd) reason"

text \<open>The JavaScript expression \<open>error.response\<close>.\<close>

fun response_of :: "('c, 'd) reason \<Rightarrow> ('c, 'd) reason + ('c, 'd) reason" where
  "response_of Undefined = Inl TypeError"
| "response_of (Raised c None) = Inr Undefined"
| "response_of (Raised c (Some r)) = Inr (RejectedResponse r)"
| "response_of e = Inr Undefined"

text \<open>
  A settled promise: \<open>Inl\<close> is a rejection, \<open>Inr\<close> a fulfilment. \<open>promise_then p f r\<close> is
  \<open>p.then(f, r)\<close>: the rejection handler sees the rejections of \<open>p\<close> only, never those of
  \<open>f\<close>, and a missing handler lets the rejection through.
\<close>

definition promise_then ::
  "'e + 'a \<Rightarrow> ('a \<Rightarrow> 'e + 'b) \<Rightarrow> ('e \<Rightarrow> 'e + 'b) option \<Rightarrow> 'e + 'b" where
  "promise_then p onFulfilled onRejected =
     (case p of
        Inr v \<Rightarrow> onFulfilled v
      | Inl e \<Rightarrow> (case onRejected of None \<Rightarrow> Inl e | Some h \<Rightarrow> h e))"

section \<open>The token store\<close>

text \<open>
  The store is pluggable (\<open>opts.storage\<close>): any object with an asynchronous \<open>get\<close> and
  \<open>set\<close>. Its state has type \<open>'s\<close>; \<open>get\<close> reads it and resolves to the token or to
  \<open>null\<close> (\<open>None\<close>), or rejects; \<open>set\<close> resolves or rejects and leaves a new state.
\<close>

record ('s, 'c, 'd) Storage =
  storage_get :: "'s \<Rightarrow> ('c, 'd) reason + string option"
  storage_set :: "string \<Rightarrow> 's \<Rightarrow> (('c, 'd) reason + unit) \<times> 's"

definition GETDEMOS_TOKEN :: string where
  "GETDEMOS_TOKEN = ''getdemos-token''"

text \<open>
  \<open>DefaultStorage\<close> keeps the token in the browser's \<open>localStorage\<close>, a dictionary from
  keys to strings: \<open>getItem\<close> answers \<open>null\<close> for a key that is not there.
\<close>

type_synonym localStorage = "string \<rightharpoonup> string"

definition DefaultStorage :: "(localStorage, 'c, 'd) Storage" where
  "DefaultStorage =
     \<lparr> storage_get = (\<lambda>ls. Inr (ls GETDEMOS_TOKEN)),
       storage_set = (\<lambda>token ls. (Inr (), ls(GETDEMOS_TOKEN \<mapsto> token))) \<rparr>"

section \<open>The client and its interceptors\<close>

text \<open>
  The axios instance made by \<open>axios.create(opts.axiosConfigs)\<close>: the headers of its
  configuration, and the transport that sends a prepared request and settles with the
  response or with an error. The transport is axios's own; it is a parameter here.
\<close>

record ('p, 'c, 'd) AxiosInstance =
  axiosConfigs :: "string \<rightharpoonup> string"
  dispatchRequest :: "'p AxiosRequestConfig \<Rightarrow> ('c, 'd) reason + 'd AxiosResponse"

record ('s, 'p, 'c, 'd) GetDemos =
  client :: "('p, 'c, 'd) AxiosInstance"
  storage :: "('s, 'c, 'd) Storage"

text \<open>
  The message of the 500 rejection, \<open>msg\<close> of \<open>{ok: false, msg: ...}\<close>: seven Chinese
  characters ("server internal error"), here as their UTF-8 bytes.
\<close>

definition ServerInternalErrorMsg :: string where
  "ServerInternalErrorMsg =
     map char_of
       [0xE6, 0x9C, 0x8D, 0xE5, 0x8A, 0xA1, 0xE5, 0x99, 0xA8, 0xE5, 0x86, 0x85,
        0xE9, 0x83, 0xA8, 0xE9, 0x94, 0x99, 0xE8, 0xAF, 0xAF :: nat]"

text \<open>
  The request interceptor (lines 71-88). Writing the debug log changes nothing that is
  returned, so it is left out.
\<close>

definition requestFulfilled ::
  "('s, 'c, 'd) Storage \<Rightarrow> 's \<Rightarrow> 'p AxiosRequestConfig \<Rightarrow>
     ('c, 'd) reason + 'p AxiosRequestConfig" where
  "requestFulfilled st s configs =
     (case storage_get st s of
        Inl e \<Rightarrow> Inl e
      | Inr token \<Rightarrow>
          (case token of
             Some t \<Rightarrow>
               Inr (configs\<lparr>headers := (headers configs)(''Authorization'' \<mapsto> ''Bearer '' @ t)\<rparr>)
           | None \<Rightarrow> Inr configs))"

definition requestRejected :: "('c, 'd) reason \<Rightarrow> ('c, 'd) reason + 'a" where
  "requestRejected error = Inl (FailureOf error)"

text \<open>The response interceptor (lines 90-111).\<close>

definition responseFulfilled ::
  "'d AxiosResponse \<Rightarrow> ('c, 'd) reason + 'd AxiosResponse" where
  "responseFulfilled response =
     (if status response = 500 then Inl (FailureText ServerInternalErrorMsg)
      else if ok (body response) = Some True then Inr response
      else Inl (RejectedResponse response))"

definition responseRejected :: "('c, 'd) reason \<Rightarrow> ('c, 'd) reason + 'a" where
  "responseRejected error =
     (case response_of error of Inl e \<Rightarrow> Inl e | Inr r \<Rightarrow> Inl r)"

text \<open>
  One call of the client. axios chains the handlers with \<open>then\<close>, starting from the
  resolved configuration: the request interceptor, the transport (with no rejection
  handler), the response interceptor.
\<close>

definition request ::
  "('s, 'p, 'c, 'd) GetDemos \<Rightarrow> 's \<Rightarrow> 'p AxiosRequestConfig \<Rightarrow>
     ('c, 'd) reason + 'd AxiosResponse" where
  "request g s configs =
     promise_then
       (promise_then
          (promise_then (Inr configs) (requestFulfilled (storage g) s) (Some requestRejected))
          (dispatchRequest (client g)) None)
       responseFulfilled (Some responseRejected)"

definition client_get ::
  "('s, 'p, 'c, 'd) GetDemos \<Rightarrow> 's \<Rightarrow> string \<Rightarrow> ('c, 'd) reason + 'd AxiosResponse" where
  "client_get g s u =
     request g s \<lparr> http_method = ''get'', url = u, headers = axiosConfigs (client g), payload = None \<rparr>"

definition client_post ::
  "('s, 'p, 'c, 'd) GetDemos \<Rightarrow> 's \<Rightarrow> string \<Rightarrow> 'p \<Rightarrow> ('c, 'd) reason + 'd AxiosResponse" where
  "client_post g s u p =
     request g s \<lparr> http_method = ''post'', url = u, headers = axiosConfigs (client g), payload = Some p \<rparr>"

definition getAppLatestRelease ::
  "('s, 'p, 'c, 'd) GetDemos \<Rightarrow> 's \<Rightarrow> string \<Rightarrow> ('c, 'd) reason + 'd AxiosResponse" where
  "getAppLatestRelease g s appQueryParams =
     client_get g s (''/api/apps/releases/latest'' @ appQueryParams)"

section \<open>Login\<close>

text \<open>
  \<open>doLogin\<close> (lines 118-124) awaits the post, then the store's \<open>set\<close>; a rejection of
  either rejects \<open>doLogin\<close>. It returns the outcome and the state of the store.
\<close>

definition doLogin ::
  "('s, 'p, 'c, string) GetDemos \<Rightarrow> 's \<Rightarrow> 'p \<Rightarrow>
     (('c, string) reason + string AxiosResponse) \<times> 's" where
  "doLogin g s loginModel =
     (case client_post g s ''/api/auth'' loginModel of
        Inl e \<Rightarrow> (Inl e, s)
      | Inr res \<Rightarrow>
          if ok (body res) = Some True then
            (case storage_set (storage g) (data (body res)) s of
               (Inl e, s') \<Rightarrow> (Inl e, s')
             | (Inr u, s') \<Rightarrow> (Inr res, s'))
          else (Inr res, s))"

section \<open>Checking for an update\<close>

text \<open>
  Modelled from the spec: the declarations of \<open>AppRelease\<close> (\<open>getdemos.models\<close>) and of
  \<open>CheckUpdateResult\<close> (\<open>api.models.t\<close>) are not among the sources. A release has a
  \<open>version\<close>, the only field read here; its other fields are the record's extension. The
  result starts as \<open>{}\<close> and gets its fields by assignment, so both are optional.
\<close>

record AppRelease =
  version :: string

record 'r CheckUpdateResult =
  latest :: "bool option"
  release :: "'r option"

text \<open>
  \<open>checkUpdate\<close> (lines 199-209). \<open>compareVersions\<close> is the function of the package
  compare-versions, a parameter here: it answers a number (1 when its first argument is
  the greater version) or raises. The query object is \<open>{}\<close>, whose \<open>toString()\<close> is
  that of every plain object.
\<close>

definition checkUpdate ::
  "('s, 'p, 'c, 'a AppRelease_scheme) GetDemos \<Rightarrow> 's \<Rightarrow>
     (string \<Rightarrow> string \<Rightarrow> ('c, 'a AppRelease_scheme) reason + int) \<Rightarrow>
     string \<Rightarrow> string option \<Rightarrow>
     ('c, 'a AppRelease_scheme) reason + 'a AppRelease_scheme CheckUpdateResult" where
  "checkUpdate g s compareVersions versionName versionCode =
     (case getAppLatestRelease g s ''[object Object]'' of
        Inl e \<Rightarrow> Inl e
      | Inr latestRelease \<Rightarrow>
          (case compareVersions (version (data (body latestRelease))) versionName of
             Inl e \<Rightarrow> Inl e
           | Inr n \<Rightarrow>
               if n = 1 then
                 Inr \<lparr> latest = Some False, release = Some (data (body latestRelease)) \<rparr>
               else Inr \<lparr> latest = Some True, release = None \<rparr>))"

subsection \<open>The version comparator\<close>

text \<open>
  Modelled from the spec: the package compare-versions is not among the sources. The
  spec's comparator takes dotted numeric versions, compares them component by component
  as numbers, a missing component counting as zero, and fails on a string that is not a
  dotted numeric version with a \<open>VersionParseError\<close> that holds the string.
\<close>

datatype version_error = VersionParseError string

fun split_dots :: "string \<Rightarrow> string list" where
  "split_dots [] = [[]]"
| "split_dots (c # cs) =
     (if c = CHR ''.'' then [] # split_dots cs
      else (case split_dots cs of
              [] \<Rightarrow> [[c]]
            | w # ws \<Rightarrow> (c # w) # ws))"

definition is_digit :: "char \<Rightarrow> bool" where
  "is_digit c = (48 \<le> (of_char c :: nat) \<and> (of_char c :: nat) \<le> 57)"

definition parse_component :: "string \<Rightarrow> nat option" where
  "parse_component w =
     (if w \<noteq> [] \<and> list_all is_digit w
      then Some (foldl (\<lambda>n c. 10 * n + (of_char c - 48)) 0 w)
      else None)"

definition parse_version :: "string \<Rightarrow> nat list option" where
  "parse_version v = those (map parse_component (split_dots v))"

fun compare_components :: "nat list \<Rightarrow> nat list \<Rightarrow> int" where
  "compare_components [] [] = 0"
| "compare_components (x # xs) [] = (if 0 < x then 1 else compare_components xs [])"
| "compare_components [] (y # ys) = (if 0 < y then - 1 else compare_components [] ys)"
| "compare_components (x # xs) (y # ys) =
     (if y < x then 1 else if x < y then - 1 else compare_components xs ys)"

text \<open>
  Modelled from the spec: \<open>compareVersions\<close> of the package compare-versions. The first
  argument is parsed first, so it is the offending string when both are malformed.
\<close>

definition compareVersions ::
  "string \<Rightarrow> string \<Rightarrow> (version_error, 'd) reason + int" where
  "compareVersions v1 v2 =
     (case parse_version v1 of
        None \<Rightarrow> Inl (Raised (VersionParseError v1) None)
      | Some a \<Rightarrow>
          (case parse_version v2 of
             None \<Rightarrow> Inl (Raised (VersionParseError v2) None)
           | Some b \<Rightarrow> Inr (compare_components a b)))"

section \<open>Collaborators for concrete runs\<close>

text \<open>
  What the theorems below are run on: a response with a given status, \<open>ok\<close> and data; a
  transport that answers every request with one response, and one that rejects every
  request with one error; a store whose operations reject with a given cause; a client
  constructed with a transport and a store and no axios configuration; and the request of
  \<open>getTags()\<close>.
\<close>

definition reply :: "int \<Rightarrow> bool option \<Rightarrow> 'd \<Rightarrow> 'd AxiosResponse" where
  "reply st flag d = \<lparr> status = st, body = \<lparr> ok = flag, code = 0, msg = [], data = d \<rparr> \<rparr>"

definition answering ::
  "'d AxiosResponse \<Rightarrow> 'p AxiosRequestConfig \<Rightarrow> ('c, 'd) reason + 'd AxiosResponse" where
  "answering r configs = Inr r"

definition failing ::
  "('c, 'd) reason \<Rightarrow> 'p AxiosRequestConfig \<Rightarrow> ('c, 'd) reason + 'd AxiosResponse" where
  "failing e configs = Inl e"

definition rejecting :: "('c, 'd) reason \<Rightarrow> (unit, 'c, 'd) Storage" where
  "rejecting cause =
     \<lparr> storage_get = (\<lambda>s. Inl cause), storage_set = (\<lambda>token s. (Inl cause, s)) \<rparr>"

definition newGetDemos ::
  "('p AxiosRequestConfig \<Rightarrow> ('c, 'd) reason + 'd AxiosResponse) \<Rightarrow> ('s, 'c, 'd) Storage \<Rightarrow>
     ('s, 'p, 'c, 'd) GetDemos" where
  "newGetDemos transport st =
     \<lparr> client = \<lparr> axiosConfigs = Map.empty, dispatchRequest = transport \<rparr>, storage = st \<rparr>"

definition getTags_config :: "'p AxiosRequestConfig" where
  "getTags_config =
     \<lparr> http_method = ''get'', url = ''/api/tags'', headers = Map.empty, payload = None \<rparr>"

type_synonym browser_client = "(localStorage, string, string, string) GetDemos"

type_synonym release_client = "(localStorage, string, version_error, AppRelease) GetDemos"

section \<open>The token store keeps what was set\<close>

text \<open>
  Claim C9. For every token \<open>T\<close> and every content of \<open>localStorage\<close>, \<open>set(T)\<close> of
  the default store resolves, and a \<open>get()\<close> on the state it leaves resolves to \<open>T\<close>.
\<close>

theorem DefaultStorage_get_after_set:
  "fst (storage_set DefaultStorage T ls) = Inr () \<and>
   storage_get DefaultStorage (snd (storage_set DefaultStorage T ls)) = Inr (Some T)"
  by (simp add: DefaultStorage_def)

section \<open>The stages of a call\<close>

lemma request_prepared:
  assumes "requestFulfilled (storage g) s configs = Inr prepared"
  shows "request g s configs =
           promise_then (dispatchRequest (client g) prepared) responseFulfilled
             (Some responseRejected)"
  using assms by (simp add: request_def promise_then_def)

lemma request_resolved:
  assumes "requestFulfilled (storage g) s configs = Inr prepared"
    and "dispatchRequest (client g) prepared = Inr response"
  shows "request g s configs = responseFulfilled response"
  using assms by (simp add: request_prepared promise_then_def)

text \<open>
  An error of the transport reaches the caller as its \<open>response\<close> property only: the
  response for an error that holds one, \<open>undefined\<close> otherwise.
\<close>

lemma request_transport_rejects:
  assumes "requestFulfilled (storage g) s configs = Inr prepared"
    and "dispatchRequest (client g) prepared = Inl e"
  shows "request g s configs = responseRejected e"
  using assms by (simp add: request_prepared promise_then_def)

lemma request_store_rejects:
  assumes "storage_get (storage g) s = Inl cause"
  shows "request g s configs = responseRejected cause"
  using assms by (simp add: request_def promise_then_def requestFulfilled_def)

lemma requestFulfilled_empty_store:
  "requestFulfilled DefaultStorage Map.empty configs = Inr configs"
  by (simp add: requestFulfilled_def DefaultStorage_def)

section \<open>The request interceptor\<close>

text \<open>
  Claim C2, as amended. When the store's \<open>get()\<close> resolves, the request interceptor
  resolves with a request \<open>out\<close>, and \<open>out\<close> is what the transport is given. For a token
  \<open>V\<close>, \<open>out\<close> carries \<open>Authorization: Bearer V\<close> and every other header as before. For
  \<open>null\<close>, \<open>out\<close> is the request as it came: the interceptor adds no header and removes
  none.
\<close>

theorem requestFulfilled_authorization:
  assumes "storage_get (storage g) s = Inr token"
  shows "\<exists>out. requestFulfilled (storage g) s configs = Inr out \<and>
           request g s configs =
             promise_then (dispatchRequest (client g) out) responseFulfilled
               (Some responseRejected) \<and>
           (case token of
              Some V \<Rightarrow>
                headers out ''Authorization'' = Some (''Bearer '' @ V) \<and>
                (\<forall>h. h \<noteq> ''Authorization'' \<longrightarrow> headers out h = headers configs h)
            | None \<Rightarrow> out = configs)"
proof (cases token)
  case None
  with assms have "requestFulfilled (storage g) s configs = Inr configs"
    by (simp add: requestFulfilled_def)
  with None show ?thesis
    by (simp add: request_prepared)
next
  case (Some V)
  let ?out = "configs\<lparr>headers := (headers configs)(''Authorization'' \<mapsto> ''Bearer '' @ V)\<rparr>"
  from assms Some have "requestFulfilled (storage g) s configs = Inr ?out"
    by (simp add: requestFulfilled_def)
  with Some show ?thesis
    by (simp add: request_prepared)
qed

text \<open>The theorem at a store that holds \<open>tok123\<close> and the request of \<open>getTags()\<close>.\<close>

theorem requestFulfilled_authorization_witness:
  "storage_get (storage (newGetDemos (answering (reply 200 (Some True) ''[]'')) DefaultStorage
                           :: browser_client))
     [GETDEMOS_TOKEN \<mapsto> ''tok123''] = Inr (Some ''tok123'') \<and>
   (\<exists>out. requestFulfilled
             (storage (newGetDemos (answering (reply 200 (Some True) ''[]'')) DefaultStorage
                         :: browser_client))
             [GETDEMOS_TOKEN \<mapsto> ''tok123'']
             (getTags_config :: string AxiosRequestConfig) = Inr out \<and>
          headers out ''Authorization'' = Some ''Bearer tok123'')"
proof -
  let ?g = "newGetDemos (answering (reply 200 (Some True) ''[]'')) DefaultStorage
              :: browser_client"
  have h: "storage_get (storage ?g) [GETDEMOS_TOKEN \<mapsto> ''tok123''] = Inr (Some ''tok123'')"
    by (simp add: newGetDemos_def DefaultStorage_def)
  from requestFulfilled_authorization [OF h, of getTags_config] h
  show ?thesis
    by auto
qed

text \<open>
  The claim as written fails for a request that already has an \<open>Authorization\<close> header
  (from \<open>opts.axiosConfigs\<close>): with no token stored, the request leaves the interceptor
  unchanged, header included.
\<close>

theorem requestFulfilled_keeps_header_counterexample:
  "storage_get DefaultStorage Map.empty = (Inr None :: (string, string) reason + string option) \<and>
   requestFulfilled (DefaultStorage :: (localStorage, string, string) Storage) Map.empty
      \<lparr> http_method = ''get'', url = ''/api/tags'',
        headers = [''Authorization'' \<mapsto> ''Basic dXNlcjpwdw==''],
        payload = (None :: string option) \<rparr>
    = Inr \<lparr> http_method = ''get'', url = ''/api/tags'',
            headers = [''Authorization'' \<mapsto> ''Basic dXNlcjpwdw==''], payload = None \<rparr> \<and>
   headers \<lparr> http_method = ''get'', url = ''/api/tags'',
             headers = [''Authorization'' \<mapsto> ''Basic dXNlcjpwdw==''],
             payload = (None :: string option) \<rparr> ''Authorization''
    = Some ''Basic dXNlcjpwdw=='' "
  by (simp add: requestFulfilled_def DefaultStorage_def)

section \<open>The response interceptor\<close>

text \<open>
  Claim C3, as amended. Take a call whose request the interceptor prepared and a
  response of a status other than 500. If the transport resolved with the response, the
  call resolves with it, whole, exactly when \<open>ok\<close> of its body is true, and rejects
  with the response as the rejection value when \<open>ok\<close> is false or absent. If the
  transport rejected with an error that holds the response, the call rejects with the
  response whatever its \<open>ok\<close>.
\<close>

theorem request_classifies_by_ok:
  assumes "requestFulfilled (storage g) s configs = Inr prepared"
    and "dispatchRequest (client g) prepared = Inr response \<or>
         dispatchRequest (client g) prepared = Inl (Raised c (Some response))"
    and "status response \<noteq> 500"
  shows "request g s configs =
           (if dispatchRequest (client g) prepared = Inr response \<and>
               ok (body response) = Some True
            then Inr response
            else Inl (RejectedResponse response))"
  using assms(2)
proof
  assume "dispatchRequest (client g) prepared = Inr response"
  with assms(1,3) show ?thesis
    by (simp add: request_resolved responseFulfilled_def)
next
  assume "dispatchRequest (client g) prepared = Inl (Raised c (Some response))"
  with assms(1) show ?thesis
    by (simp add: request_transport_rejects responseRejected_def)
qed

text \<open>
  The theorem at a 200 response with \<open>ok: true\<close> and at a 404 response without
  \<open>ok\<close>, both resolved with, and at a 401 response with \<open>ok: false\<close> held by an error.
\<close>

theorem request_classifies_by_ok_witness:
  "request (newGetDemos (answering (reply 200 (Some True) ''[]'')) DefaultStorage
              :: browser_client) Map.empty getTags_config
    = Inr (reply 200 (Some True) ''[]'') \<and>
   request (newGetDemos (answering (reply 404 None ''[]'')) DefaultStorage
              :: browser_client) Map.empty getTags_config
    = Inl (RejectedResponse (reply 404 None ''[]'')) \<and>
   request (newGetDemos (failing (Raised ''status 401'' (Some (reply 401 (Some False) ''[]''))))
              DefaultStorage
              :: browser_client) Map.empty getTags_config
    = Inl (RejectedResponse (reply 401 (Some False) ''[]''))"
proof -
  have run: "request (newGetDemos (answering (reply st flag ''[]'')) DefaultStorage
                        :: browser_client) Map.empty getTags_config
               = (if flag = Some True then Inr (reply st flag ''[]'')
                  else Inl (RejectedResponse (reply st flag ''[]'')))"
    if "st \<noteq> 500" for st flag
  proof -
    let ?g = "newGetDemos (answering (reply st flag ''[]'')) DefaultStorage :: browser_client"
    have p: "requestFulfilled (storage ?g) Map.empty getTags_config = Inr getTags_config"
      by (simp add: newGetDemos_def requestFulfilled_empty_store)
    have d: "dispatchRequest (client ?g) getTags_config = Inr (reply st flag ''[]'') \<or>
             dispatchRequest (client ?g) getTags_config
               = Inl (Raised ''none'' (Some (reply st flag ''[]'')))"
      by (simp add: newGetDemos_def answering_def)
    have "status (reply st flag ''[]'') \<noteq> 500"
      using that by (simp add: reply_def)
    from request_classifies_by_ok [OF p d this] show ?thesis
      by (simp add: reply_def newGetDemos_def answering_def)
  qed
  let ?r = "reply 401 (Some False) ''[]''"
  let ?g = "newGetDemos (failing (Raised ''status 401'' (Some ?r))) DefaultStorage
              :: browser_client"
  have p: "requestFulfilled (storage ?g) Map.empty getTags_config = Inr getTags_config"
    by (simp add: newGetDemos_def requestFulfilled_empty_store)
  have d: "dispatchRequest (client ?g) getTags_config = Inr ?r \<or>
           dispatchRequest (client ?g) getTags_config = Inl (Raised ''status 401'' (Some ?r))"
    by (simp add: newGetDemos_def failing_def)
  have "status ?r \<noteq> 500"
    by (simp add: reply_def)
  from request_classifies_by_ok [OF p d this]
  have "request ?g Map.empty getTags_config = Inl (RejectedResponse ?r)"
    by (simp add: newGetDemos_def failing_def)
  then show ?thesis
    by (simp add: run)
qed

text \<open>
  The claim as written fails for a response that reaches the client as the
  \<open>response\<close> of an error: a 404 response whose body says \<open>ok: true\<close> is rejected.
\<close>

theorem request_error_path_ok_counterexample:
  "status (reply 404 (Some True) ''[]'') \<noteq> 500 \<and>
   ok (body (reply 404 (Some True) ''[]'')) = Some True \<and>
   request (newGetDemos (failing (Raised ''status 404'' (Some (reply 404 (Some True) ''[]''))))
              DefaultStorage
              :: browser_client) Map.empty getTags_config
    = Inl (RejectedResponse (reply 404 (Some True) ''[]''))"
  by (simp add: request_def promise_then_def requestFulfilled_empty_store newGetDemos_def
      failing_def responseRejected_def reply_def)

text \<open>
  A response of status 500 that the transport resolved with: the call rejects with
  \<open>{ok: false, msg}\<close>, \<open>msg\<close> the fixed text, the same value for every body and with no
  part of the response.
\<close>

lemma request_status_500_resolved:
  assumes "requestFulfilled (storage g) s configs = Inr prepared"
    and "dispatchRequest (client g) prepared = Inr response"
    and "status response = 500"
  shows "request g s configs = Inl (FailureText ServerInternalErrorMsg)"
  using assms by (simp add: request_resolved responseFulfilled_def)

text \<open>
  A response of status 500 held by an error of the transport: the call rejects with the
  response itself, body included.
\<close>

lemma request_status_500_in_error:
  assumes "requestFulfilled (storage g) s configs = Inr prepared"
    and "dispatchRequest (client g) prepared = Inl (Raised c (Some response))"
  shows "request g s configs = Inl (RejectedResponse response)"
  using assms by (simp add: request_transport_rejects responseRejected_def)

text \<open>
  Claim C4. The client run on one 500 response, delivered both ways. Resolved with by
  the transport, it is rejected with the generic value, as the claim says. Held by an
  error of the transport, it is rejected with the whole response, its body
  \<open>stack trace\<close> included: there the claim does not hold.
\<close>

theorem request_status_500_both_paths:
  "request (newGetDemos (answering (reply 500 (Some False) ''stack trace'')) DefaultStorage
              :: browser_client) Map.empty getTags_config
    = Inl (FailureText ServerInternalErrorMsg) \<and>
   request (newGetDemos (failing (Raised ''status 500''
                                    (Some (reply 500 (Some False) ''stack trace''))))
              DefaultStorage
              :: browser_client) Map.empty getTags_config
    = Inl (RejectedResponse (reply 500 (Some False) ''stack trace'')) \<and>
   data (body (reply 500 (Some False) ''stack trace'')) = ''stack trace''"
proof -
  let ?r = "reply 500 (Some False) ''stack trace''"
  let ?g = "newGetDemos (answering ?r) DefaultStorage :: browser_client"
  let ?g' = "newGetDemos (failing (Raised ''status 500'' (Some ?r))) DefaultStorage
               :: browser_client"
  have p: "requestFulfilled (storage ?g) Map.empty getTags_config = Inr getTags_config"
    and p': "requestFulfilled (storage ?g') Map.empty getTags_config = Inr getTags_config"
    by (simp_all add: newGetDemos_def requestFulfilled_empty_store)
  have d: "dispatchRequest (client ?g) getTags_config = Inr ?r"
    and d': "dispatchRequest (client ?g') getTags_config
               = Inl (Raised ''status 500'' (Some ?r))"
    by (simp_all add: newGetDemos_def answering_def failing_def)
  have "status ?r = 500"
    by (simp add: reply_def)
  from request_status_500_resolved [OF p d this] request_status_500_in_error [OF p' d']
  show ?thesis
    by (simp add: reply_def)
qed

section \<open>Login\<close>

lemma client_post_resolved:
  assumes "requestFulfilled (storage g) s
             \<lparr> http_method = ''post'', url = u, headers = axiosConfigs (client g),
               payload = Some p \<rparr>
           = Inr prepared"
    and "dispatchRequest (client g) prepared = Inr response"
  shows "client_post g s u p = responseFulfilled response"
  using assms by (simp add: client_post_def request_resolved)

text \<open>
  Claim C5. Take a login whose request the interceptor prepared and whose transport
  resolved with a response of body \<open>{ok: true, data: T}\<close>. Then \<open>doLogin\<close> resolves
  with a result and leaves the store in a state exactly when the status is not 500, the
  result is that response, unchanged, and the state is the one \<open>storage.set(T)\<close>, run on
  the state before the call, resolved with.
\<close>

theorem doLogin_stores_token:
  assumes "requestFulfilled (storage g) s
             \<lparr> http_method = ''post'', url = ''/api/auth'', headers = axiosConfigs (client g),
               payload = Some loginModel \<rparr>
           = Inr prepared"
    and "dispatchRequest (client g) prepared = Inr response"
    and "ok (body response) = Some True"
    and "data (body response) = T"
  shows "doLogin g s loginModel = (Inr res, s') \<longleftrightarrow>
           status response \<noteq> 500 \<and> res = response \<and>
           storage_set (storage g) T s = (Inr (), s')"
proof -
  have post: "client_post g s ''/api/auth'' loginModel = responseFulfilled response"
    using assms(1,2) by (rule client_post_resolved)
  show ?thesis
  proof (cases "status response = 500")
    case True
    then show ?thesis
      by (simp add: doLogin_def post responseFulfilled_def)
  next
    case False
    with assms(3) have "client_post g s ''/api/auth'' loginModel = Inr response"
      by (simp add: post responseFulfilled_def)
    with assms(3,4) False show ?thesis
      by (cases "storage_set (storage g) T s")
         (auto simp: doLogin_def split: sum.splits)
  qed
qed

text \<open>
  The theorem at the default store, empty, and a server that answers \<open>tok123\<close>: the
  login resolves with the response, and the store then gives \<open>tok123\<close>.
\<close>

theorem doLogin_stores_token_witness:
  "doLogin (newGetDemos (answering (reply 200 (Some True) ''tok123'')) DefaultStorage
              :: browser_client) Map.empty ''name and password''
    = (Inr (reply 200 (Some True) ''tok123''), [GETDEMOS_TOKEN \<mapsto> ''tok123'']) \<and>
   storage_get (storage (newGetDemos (answering (reply 200 (Some True) ''tok123''))
                           DefaultStorage :: browser_client))
      [GETDEMOS_TOKEN \<mapsto> ''tok123''] = Inr (Some ''tok123'')"
proof -
  let ?r = "reply 200 (Some True) ''tok123''"
  let ?g = "newGetDemos (answering ?r) DefaultStorage :: browser_client"
  let ?cfg = "\<lparr> http_method = ''post'', url = ''/api/auth'', headers = axiosConfigs (client ?g),
                payload = Some ''name and password'' \<rparr>"
  have p: "requestFulfilled (storage ?g) Map.empty ?cfg = Inr ?cfg"
    by (simp add: newGetDemos_def requestFulfilled_empty_store)
  have d: "dispatchRequest (client ?g) ?cfg = Inr ?r"
    by (simp add: newGetDemos_def answering_def)
  have o: "ok (body ?r) = Some True" and t: "data (body ?r) = ''tok123''"
    by (simp_all add: reply_def)
  have "status ?r \<noteq> 500 \<and> ?r = ?r \<and>
        storage_set (storage ?g) ''tok123'' Map.empty
          = (Inr (), [GETDEMOS_TOKEN \<mapsto> ''tok123''])"
    by (simp add: newGetDemos_def DefaultStorage_def reply_def)
  with doLogin_stores_token [OF p d o t, of ?r "[GETDEMOS_TOKEN \<mapsto> ''tok123'']"]
  have "doLogin ?g Map.empty ''name and password''
          = (Inr ?r, [GETDEMOS_TOKEN \<mapsto> ''tok123''])"
    by blast
  then show ?thesis
    by (simp add: newGetDemos_def DefaultStorage_def)
qed

text \<open>
  Claim C6. Take a login whose request the interceptor prepared and whose response has
  an \<open>ok\<close> that is false (or absent), whether the transport resolved with the response
  or rejected with an error that holds it. Then \<open>doLogin\<close> rejects, with what the
  response interceptor rejected with, and the store is in the state it had before the
  call, whatever its \<open>set\<close> would do.
\<close>

theorem doLogin_not_ok_keeps_store:
  assumes "requestFulfilled (storage g) s
             \<lparr> http_method = ''post'', url = ''/api/auth'', headers = axiosConfigs (client g),
               payload = Some loginModel \<rparr>
           = Inr prepared"
    and "dispatchRequest (client g) prepared = Inr response \<or>
         dispatchRequest (client g) prepared = Inl (Raised c (Some response))"
    and "ok (body response) \<noteq> Some True"
  shows "doLogin g s loginModel =
           (Inl (if dispatchRequest (client g) prepared = Inr response \<and> status response = 500
                 then FailureText ServerInternalErrorMsg
                 else RejectedResponse response), s)"
  using assms(2)
proof
  assume resolved: "dispatchRequest (client g) prepared = Inr response"
  with assms(1) have "client_post g s ''/api/auth'' loginModel = responseFulfilled response"
    by (rule client_post_resolved)
  with assms(3) resolved show ?thesis
    by (simp add: doLogin_def responseFulfilled_def)
next
  assume rejected: "dispatchRequest (client g) prepared = Inl (Raised c (Some response))"
  with assms(1)
  have "client_post g s ''/api/auth'' loginModel = responseRejected (Raised c (Some response))"
    unfolding client_post_def by (rule request_transport_rejects)
  with rejected show ?thesis
    by (simp add: doLogin_def responseRejected_def)
qed

text \<open>
  The theorem at a store that holds an old token, which the request then carries, and a
  server that refuses the login: once in a 200 response, once in a 401 response that the
  transport turns into an error.
\<close>

theorem doLogin_not_ok_keeps_store_witness:
  "doLogin (newGetDemos (answering (reply 200 (Some False) ''no'')) DefaultStorage
              :: browser_client) [GETDEMOS_TOKEN \<mapsto> ''old''] ''name and password''
    = (Inl (RejectedResponse (reply 200 (Some False) ''no'')), [GETDEMOS_TOKEN \<mapsto> ''old'']) \<and>
   doLogin (newGetDemos (failing (Raised ''status 401'' (Some (reply 401 (Some False) ''no''))))
              DefaultStorage
              :: browser_client) [GETDEMOS_TOKEN \<mapsto> ''old''] ''name and password''
    = (Inl (RejectedResponse (reply 401 (Some False) ''no'')), [GETDEMOS_TOKEN \<mapsto> ''old''])"
proof -
  let ?r = "reply 200 (Some False) ''no''" and ?r' = "reply 401 (Some False) ''no''"
  let ?g = "newGetDemos (answering ?r) DefaultStorage :: browser_client"
  let ?g' = "newGetDemos (failing (Raised ''status 401'' (Some ?r'))) DefaultStorage
               :: browser_client"
  let ?out = "\<lparr> http_method = ''post'', url = ''/api/auth'',
                headers = [''Authorization'' \<mapsto> ''Bearer old''],
                payload = Some ''name and password'' \<rparr>"
  have p: "requestFulfilled (storage ?g) [GETDEMOS_TOKEN \<mapsto> ''old'']
             \<lparr> http_method = ''post'', url = ''/api/auth'',
               headers = axiosConfigs (client ?g), payload = Some ''name and password'' \<rparr>
           = Inr ?out"
    and p': "requestFulfilled (storage ?g') [GETDEMOS_TOKEN \<mapsto> ''old'']
             \<lparr> http_method = ''post'', url = ''/api/auth'',
               headers = axiosConfigs (client ?g'), payload = Some ''name and password'' \<rparr>
           = Inr ?out"
    by (simp_all add: newGetDemos_def requestFulfilled_def DefaultStorage_def)
  have d: "dispatchRequest (client ?g) ?out = Inr ?r \<or>
           dispatchRequest (client ?g) ?out = Inl (Raised ''status 401'' (Some ?r))"
    and d': "dispatchRequest (client ?g') ?out = Inr ?r' \<or>
           dispatchRequest (client ?g') ?out = Inl (Raised ''status 401'' (Some ?r'))"
    by (simp_all add: newGetDemos_def answering_def failing_def)
  have o: "ok (body ?r) \<noteq> Some True" and o': "ok (body ?r') \<noteq> Some True"
    by (simp_all add: reply_def)
  from doLogin_not_ok_keeps_store [OF p d o] doLogin_not_ok_keeps_store [OF p' d' o']
  show ?thesis
    by (simp add: newGetDemos_def answering_def failing_def reply_def)
qed

section \<open>A failing token store\<close>

text \<open>
  If the store's \<open>get()\<close> rejects with a cause, the call is settled without the
  transport: whatever transport the client has, the call rejects with
  \<open>cause.response\<close>, the value the response interceptor's error handler makes of the
  cause.
\<close>

lemma request_store_failure:
  assumes "storage_get (storage g) s = Inl cause"
  shows "request (g\<lparr>client := (client g)\<lparr>dispatchRequest := transport\<rparr>\<rparr>) s configs =
           (case response_of cause of Inl e \<Rightarrow> Inl e | Inr r \<Rightarrow> Inl r)"
proof -
  let ?g = "g\<lparr>client := (client g)\<lparr>dispatchRequest := transport\<rparr>\<rparr>"
  have "storage_get (storage ?g) s = Inl cause"
    using assms by simp
  then show ?thesis
    by (simp only: request_store_rejects responseRejected_def)
qed

text \<open>
  Claim C8. The client run on a store whose \<open>get()\<close> rejects with a plain error. The
  call rejects with \<open>undefined\<close>, which carries no cause, whereas the request
  interceptor's own error handler, which this rejection never reaches, makes of the same
  cause the value \<open>{ok: false, msg: cause}\<close>. The failure the claim describes is the
  second; the caller gets the first.
\<close>

theorem request_store_failure_loses_cause:
  "storage_get (rejecting (Raised ''SecurityError'' None)) ()
     = (Inl (Raised ''SecurityError'' None) :: (string, string) reason + string option) \<and>
   request (newGetDemos (answering (reply 200 (Some True) ''[]''))
              (rejecting (Raised ''SecurityError'' None))
              :: (unit, string, string, string) GetDemos) () getTags_config
    = Inl Undefined \<and>
   (requestRejected (Raised ''SecurityError'' None)
      :: (string, string) reason + string AxiosRequestConfig)
    = Inl (FailureOf (Raised ''SecurityError'' None))"
  by (simp add: request_def promise_then_def requestFulfilled_def rejecting_def
      responseRejected_def newGetDemos_def requestRejected_def)

section \<open>Checking for an update\<close>

subsection \<open>The dotted numeric order\<close>

text \<open>
  The comparison of component lists answers -1, 0 or 1, is antisymmetric, answers 0 on
  equal lists, and a trailing zero component changes nothing.
\<close>

lemma compare_components_range: "compare_components a b \<in> {- 1, 0, 1}"
  by (induction a b rule: compare_components.induct) auto

lemma compare_components_swap: "compare_components b a = - compare_components a b"
  by (induction a b rule: compare_components.induct) auto

lemma compare_components_refl: "compare_components a a = 0"
  by (induction a) auto

lemma compare_components_pad: "compare_components (a @ [0]) b = compare_components a b"
  by (induction a b rule: compare_components.induct) auto

lemma parse_examples:
  "parse_version ''1.0.0'' = Some [1, 0, 0]"
  "parse_version ''1.2.0'' = Some [1, 2, 0]"
  "parse_version ''2.0.0'' = Some [2, 0, 0]"
  "parse_version ''1.x'' = None"
  by (simp_all add: parse_version_def parse_component_def is_digit_def)

lemma compareVersions_malformed:
  assumes "parse_version v1 = None \<or> parse_version v2 = None"
  shows "compareVersions v1 v2 =
           Inl (Raised (VersionParseError (if parse_version v1 = None then v1 else v2)) None)"
  using assms by (auto simp: compareVersions_def split: option.splits)

subsection \<open>The result of the check\<close>

lemma checkUpdate_comparator_raises:
  assumes "getAppLatestRelease g s ''[object Object]'' = Inr latestRelease"
    and "cmp (version (data (body latestRelease))) versionName = Inl e"
  shows "checkUpdate g s cmp versionName versionCode = Inl e"
  using assms by (simp add: checkUpdate_def)

lemma releases_fetch:
  "getAppLatestRelease (newGetDemos (answering (reply 200 (Some True) r)) DefaultStorage)
     Map.empty q
   = Inr (reply 200 (Some True) r)"
  by (simp add: getAppLatestRelease_def client_get_def request_def promise_then_def
      requestFulfilled_def DefaultStorage_def answering_def responseFulfilled_def
      newGetDemos_def reply_def)

text \<open>
  Claim C1. Take a \<open>checkUpdate(versionName, versionCode)\<close> that fetched the latest
  release, and let the comparator answer \<open>n\<close> for the release's version against
  \<open>versionName\<close>. If \<open>n\<close> is 1, the comparator's answer for a strictly greater first
  argument, the result is \<open>{latest: false, release}\<close> with the fetched release;
  otherwise, equal versions included, it is \<open>{latest: true}\<close> with no release.
\<close>

theorem checkUpdate_latest:
  assumes "getAppLatestRelease g s ''[object Object]'' = Inr latestRelease"
    and "cmp (version (data (body latestRelease))) versionName = Inr n"
  shows "checkUpdate g s cmp versionName versionCode =
           Inr (if n = 1
                then \<lparr> latest = Some False, release = Some (data (body latestRelease)) \<rparr>
                else \<lparr> latest = Some True, release = None \<rparr>)"
  using assms by (simp add: checkUpdate_def)

text \<open>
  The theorem at the spec's three examples, with the dotted numeric comparator: the
  caller's 1.0.0 against the release 1.2.0, 2.0.0 against 1.2.0, and 1.0.0 against 1.0.0.
\<close>

theorem checkUpdate_latest_witness:
  "checkUpdate (newGetDemos (answering (reply 200 (Some True) \<lparr> version = ''1.2.0'' \<rparr>))
                  DefaultStorage :: release_client)
      Map.empty compareVersions ''1.0.0'' None
    = Inr \<lparr> latest = Some False, release = Some \<lparr> version = ''1.2.0'' \<rparr> \<rparr> \<and>
   checkUpdate (newGetDemos (answering (reply 200 (Some True) \<lparr> version = ''1.2.0'' \<rparr>))
                  DefaultStorage :: release_client)
      Map.empty compareVersions ''2.0.0'' None
    = Inr \<lparr> latest = Some True, release = None \<rparr> \<and>
   checkUpdate (newGetDemos (answering (reply 200 (Some True) \<lparr> version = ''1.0.0'' \<rparr>))
                  DefaultStorage :: release_client)
      Map.empty compareVersions ''1.0.0'' None
    = Inr \<lparr> latest = Some True, release = None \<rparr>"
proof -
  let ?resp = "\<lambda>v. reply 200 (Some True) \<lparr> version = v \<rparr>"
  let ?g = "\<lambda>v. newGetDemos (answering (?resp v)) DefaultStorage :: release_client"
  have f: "getAppLatestRelease (?g v) Map.empty ''[object Object]'' = Inr (?resp v)" for v
    by (rule releases_fetch)
  have c1: "compareVersions (version (data (body (?resp ''1.2.0'')))) ''1.0.0''
              = (Inr 1 :: (version_error, AppRelease) reason + int)"
    and c2: "compareVersions (version (data (body (?resp ''1.2.0'')))) ''2.0.0''
              = (Inr (- 1) :: (version_error, AppRelease) reason + int)"
    and c3: "compareVersions (version (data (body (?resp ''1.0.0'')))) ''1.0.0''
              = (Inr 0 :: (version_error, AppRelease) reason + int)"
    by (simp_all add: compareVersions_def parse_examples reply_def)
  from checkUpdate_latest [where cmp = compareVersions and versionCode = None, OF f c1]
    checkUpdate_latest [where cmp = compareVersions and versionCode = None, OF f c2]
    checkUpdate_latest [where cmp = compareVersions and versionCode = None, OF f c3]
  show ?thesis
    by (simp add: reply_def)
qed

text \<open>
  Claim C7. Take a \<open>checkUpdate\<close> that fetched the latest release, where the release's
  version or \<open>versionName\<close> is not a dotted numeric version. With the spec's comparator
  the call yields no result: it rejects with the comparator's \<open>VersionParseError\<close>,
  which holds the offending string (the release's version when that is malformed, else
  \<open>versionName\<close>). \<open>checkUpdate\<close> has no handler of its own, so the comparator's error
  is what the caller gets.
\<close>

theorem checkUpdate_malformed_version:
  assumes "getAppLatestRelease g s ''[object Object]'' = Inr latestRelease"
    and "parse_version (version (data (body latestRelease))) = None \<or>
         parse_version versionName = None"
  shows "checkUpdate g s compareVersions versionName versionCode =
           Inl (Raised
                  (VersionParseError
                     (if parse_version (version (data (body latestRelease))) = None
                      then version (data (body latestRelease)) else versionName))
                  None)"
  using assms(1) compareVersions_malformed [OF assms(2)]
  by (rule checkUpdate_comparator_raises)

text \<open>The theorem at a release 1.2.0 and the caller's version \<open>1.x\<close>.\<close>

theorem checkUpdate_malformed_version_witness:
  "checkUpdate (newGetDemos (answering (reply 200 (Some True) \<lparr> version = ''1.2.0'' \<rparr>))
                  DefaultStorage :: release_client)
      Map.empty compareVersions ''1.x'' None
    = Inl (Raised (VersionParseError ''1.x'') None)"
proof -
  let ?resp = "reply 200 (Some True) \<lparr> version = ''1.2.0'' \<rparr>"
  let ?g = "newGetDemos (answering ?resp) DefaultStorage :: release_client"
  have f: "getAppLatestRelease ?g Map.empty ''[object Object]'' = Inr ?resp"
    by (rule releases_fetch)
  have m: "parse_version (version (data (body ?resp))) = None \<or> parse_version ''1.x'' = None"
    by (simp add: parse_examples)
  from checkUpdate_malformed_version [OF f m, of None]
  show ?thesis
    by (simp add: parse_examples reply_def)
qed

text \<open>
  Claim C10. The result of \<open>checkUpdate\<close> is the same for any two values of
  \<open>versionCode\<close>, the client, the store, the comparator and \<open>versionName\<close> being the
  same.
\<close>

theorem checkUpdate_ignores_versionCode:
  "checkUpdate g s cmp versionName versionCode = checkUpdate g s cmp versionName versionCode'"
  by (simp add: checkUpdate_def)

end
